theory Spec2Isabelle
  imports Complex_Main
begin

section \<open>Data model of \<open>hand_tracking_module.py\<close>\<close>

text \<open>
  The exceptions the module can raise on its own code paths: attribute access on
  \<open>None\<close>, list indexing out of range, and \<open>min\<close>/\<open>max\<close> of an empty list or a
  tuple unpacking of the wrong size.
\<close>

datatype error = AttributeError | IndexError | ValueError

text \<open>
  A normalised landmark of the landmark engine. Only its \<open>x\<close> and \<open>y\<close> attributes are
  read by the module. They are Python floats; every finite float is a rational number, so
  they are modelled as \<open>rat\<close> and the product \<open>lm.x * w\<close> as the exact product. The
  concrete inputs used below are dyadic fractions whose products are exact in binary
  floating point as well.
\<close>

record landmark =
  lm_x :: rat
  lm_y :: rat

text \<open>\<open>myHand.landmark\<close>: the ordered landmarks of one hand.\<close>

type_synonym hand = "landmark list"

text \<open>
  The value stored in \<open>self.results\<close>; \<open>multi_hand_landmarks\<close> is \<open>None\<close> or a list
  of hands.
\<close>

record detection_result =
  multi_hand_landmarks :: "hand list option"

text \<open>
  The drawing calls of \<open>cv2\<close> and of the engine's drawing utility, with their arguments
  (centre or corner points, radius, colour, thickness). \<open>cv2.FILLED\<close> is \<open>-1\<close>.
\<close>

datatype draw_op =
    Circle "int \<times> int" int "int \<times> int \<times> int" int
  | Rectangle "int \<times> int" "int \<times> int" "int \<times> int \<times> int" int
  | Line "int \<times> int" "int \<times> int" "int \<times> int \<times> int" int
  | Landmarks hand

definition FILLED :: int where
  "FILLED = - 1"

text \<open>
  An image: its \<open>shape\<close> tuple and the drawing calls applied to it so far, in order (the
  pixel contents are not needed beyond that).
\<close>

record image =
  shape :: "nat list"
  drawn :: "draw_op list"

definition draw_on :: "image \<Rightarrow> draw_op \<Rightarrow> image" where
  "draw_on img d = img\<lparr>drawn := drawn img @ [d]\<rparr>"

text \<open>One entry \<open>[id, cx, cy]\<close> of \<open>self.lmList\<close>.\<close>

type_synonym lm_entry = "nat \<times> int \<times> int"

definition entry_x :: "lm_entry \<Rightarrow> int" where
  "entry_x e = fst (snd e)"

definition entry_y :: "lm_entry \<Rightarrow> int" where
  "entry_y e = snd (snd e)"

text \<open>The fields of a \<open>HandDetector\<close> instance.\<close>

record detector =
  mode :: bool
  maxHands :: int
  detectionCon :: rat
  trackCon :: rat
  results :: "detection_result option"
  lmList :: "lm_entry list"

section \<open>Python primitives\<close>

text \<open>\<open>xs[i]\<close>: a negative index counts from the end, anything else out of range raises.\<close>

definition py_index :: "'a list \<Rightarrow> int \<Rightarrow> error + 'a" where
  "py_index xs i =
     (if 0 \<le> i \<and> i < int (length xs) then Inr (xs ! nat i)
      else if i < 0 \<and> - int (length xs) \<le> i then Inr (xs ! nat (int (length xs) + i))
      else Inl IndexError)"

text \<open>\<open>int(f)\<close> on a float: truncation towards zero.\<close>

definition py_int :: "rat \<Rightarrow> int" where
  "py_int q = (if 0 \<le> q then \<lfloor>q\<rfloor> else \<lceil>q\<rceil>)"

text \<open>\<open>min(xs)\<close> and \<open>max(xs)\<close> on a list: \<open>ValueError\<close> on the empty list.\<close>

fun py_min :: "int list \<Rightarrow> error + int" where
  "py_min [] = Inl ValueError"
| "py_min (x # xs) = Inr (fold min xs x)"

fun py_max :: "int list \<Rightarrow> error + int" where
  "py_max [] = Inl ValueError"
| "py_max (x # xs) = Inr (fold max xs x)"

text \<open>\<open>math.hypot(a, b)\<close> on two integers, as the exact real number it approximates.\<close>

definition hypot :: "int \<Rightarrow> int \<Rightarrow> real" where
  "hypot a b = sqrt (real_of_int (a * a + b * b))"

section \<open>The module\<close>

definition tipIds :: "int list" where
  "tipIds = [4, 8, 12, 16, 20]"

text \<open>\<open>HandDetector.__init__\<close>: the configuration is stored, no result, no landmarks.\<close>

definition HandDetector :: "bool \<Rightarrow> int \<Rightarrow> rat \<Rightarrow> rat \<Rightarrow> detector" where
  "HandDetector m mh dc tc =
     \<lparr>mode = m, maxHands = mh, detectionCon = dc, trackCon = tc,
      results = None, lmList = []\<rparr>"

text \<open>
  \<open>findHands\<close>. The landmark engine (\<open>self.hands.process\<close> after the colour conversion) is
  the parameter \<open>process\<close>. The result is the updated instance and the image.
\<close>

definition findHands ::
  "(image \<Rightarrow> detection_result) \<Rightarrow> detector \<Rightarrow> image \<Rightarrow> bool \<Rightarrow> detector \<times> image" where
  "findHands process self img draw =
     (let res = process img;
          self' = self\<lparr>results := Some res\<rparr>
      in case multi_hand_landmarks res of
           None \<Rightarrow> (self', img)
         | Some hands \<Rightarrow>
             (self', fold (\<lambda>handLms im. if draw then draw_on im (Landmarks handLms) else im)
                       hands img))"

text \<open>
  The local and instance variables the loop of \<open>findPosition\<close> updates: \<open>xList\<close>,
  \<open>yList\<close>, \<open>self.lmList\<close> and the image.
\<close>

record loop_state =
  xList :: "int list"
  yList :: "int list"
  lms :: "lm_entry list"
  limg :: image

text \<open>
  The loop \<open>for id, lm in enumerate(myHand.landmark)\<close>. Each round unpacks
  \<open>h, w, _ = img.shape\<close>, which raises \<open>ValueError\<close> unless the shape has three entries.
  The result is the exception raised, if any, and the variables as they are then.
\<close>

fun findPosition_loop ::
  "bool \<Rightarrow> (nat \<times> landmark) list \<Rightarrow> loop_state \<Rightarrow> error option \<times> loop_state" where
  "findPosition_loop draw [] st = (None, st)"
| "findPosition_loop draw ((i, lm) # rest) st =
     (case shape (limg st) of
        [h, w, c] \<Rightarrow>
          (let cx = py_int (lm_x lm * of_nat w);
               cy = py_int (lm_y lm * of_nat h)
           in findPosition_loop draw rest
                \<lparr>xList = xList st @ [cx],
                 yList = yList st @ [cy],
                 lms = lms st @ [(i, cx, cy)],
                 limg = (if draw then draw_on (limg st) (Circle (cx, cy) 7 (0, 255, 0) FILLED)
                         else limg st)\<rparr>)
      | _ \<Rightarrow> (Some ValueError, st))"

text \<open>
  \<open>findPosition\<close>. The result is the instance and the image as they are when the call
  ends, and either the exception raised or the returned pair \<open>(self.lmList, bbox)\<close>.
\<close>

definition findPosition ::
  "detector \<Rightarrow> image \<Rightarrow> int \<Rightarrow> bool
     \<Rightarrow> (detector \<times> image) \<times> (error + lm_entry list \<times> int list)" where
  "findPosition self img handNo draw =
     (let self0 = self\<lparr>lmList := []\<rparr> in
      case results self of
        None \<Rightarrow> ((self0, img), Inl AttributeError)
      | Some res \<Rightarrow>
          (case multi_hand_landmarks res of
             None \<Rightarrow> ((self0, img), Inr ([], []))
           | Some hands \<Rightarrow>
               if hands = [] then ((self0, img), Inr ([], []))
               else if handNo < int (length hands) then
                 (case py_index hands handNo of
                    Inl e \<Rightarrow> ((self0, img), Inl e)
                  | Inr myHand \<Rightarrow>
                      (case findPosition_loop draw (enumerate 0 myHand)
                              \<lparr>xList = [], yList = [], lms = [], limg = img\<rparr> of
                         (Some e, st) \<Rightarrow> ((self\<lparr>lmList := lms st\<rparr>, limg st), Inl e)
                       | (None, st) \<Rightarrow>
                           (case (py_min (xList st), py_max (xList st),
                                  py_min (yList st), py_max (yList st)) of
                              (Inr xmin, Inr xmax, Inr ymin, Inr ymax) \<Rightarrow>
                                ((self\<lparr>lmList := lms st\<rparr>,
                                  (if draw
                                   then draw_on (limg st)
                                          (Rectangle (xmin - 20, ymin - 20) (xmax + 20, ymax + 20)
                                             (0, 255, 0) 2)
                                   else limg st)),
                                 Inr (lms st, [xmin, ymin, xmax, ymax]))
                            | _ \<Rightarrow> ((self\<lparr>lmList := lms st\<rparr>, limg st), Inl ValueError))))
               else ((self0, img), Inr ([], []))))"

text \<open>
  The loop \<open>for id in range(1, 5)\<close> of \<open>fingersUp\<close>, appending one flag per finger.
\<close>

fun fingersUp_loop :: "lm_entry list \<Rightarrow> nat list \<Rightarrow> int list \<Rightarrow> error + int list" where
  "fingersUp_loop lml [] fingers = Inr fingers"
| "fingersUp_loop lml (i # ids) fingers =
     (case py_index lml (tipIds ! i) of
        Inl e \<Rightarrow> Inl e
      | Inr tip \<Rightarrow>
          (case py_index lml (tipIds ! i - 2) of
             Inl e \<Rightarrow> Inl e
           | Inr joint \<Rightarrow>
               fingersUp_loop lml ids
                 (fingers @ [if entry_y tip < entry_y joint then 1 else 0])))"

definition fingersUp :: "detector \<Rightarrow> error + int list" where
  "fingersUp self =
     (if lmList self = [] then Inr []
      else
        (case py_index (lmList self) (tipIds ! 0) of
           Inl e \<Rightarrow> Inl e
         | Inr tip \<Rightarrow>
             (case py_index (lmList self) (tipIds ! 0 - 1) of
                Inl e \<Rightarrow> Inl e
              | Inr joint \<Rightarrow>
                  fingersUp_loop (lmList self) [1, 2, 3, 4]
                    [if entry_x tip > entry_x joint then 1 else 0])))"

text \<open>
  \<open>findDistance\<close>: the exception raised, or the returned triple of the length, the image
  and the coordinate list.
\<close>

definition findDistance ::
  "detector \<Rightarrow> int \<Rightarrow> int \<Rightarrow> image \<Rightarrow> bool \<Rightarrow> error + real \<times> image \<times> int list" where
  "findDistance self p1 p2 img draw =
     (if lmList self = [] then Inr (0, img, [])
      else
        (case py_index (lmList self) p1 of
           Inl e \<Rightarrow> Inl e
         | Inr e1 \<Rightarrow>
             (case py_index (lmList self) p2 of
                Inl e \<Rightarrow> Inl e
              | Inr e2 \<Rightarrow>
                  (let x1 = entry_x e1; y1 = entry_y e1;
                       x2 = entry_x e2; y2 = entry_y e2;
                       cx = (x1 + x2) div 2; cy = (y1 + y2) div 2;
                       img' = (if draw
                               then fold (\<lambda>d im. draw_on im d)
                                      [Circle (x1, y1) 10 (0, 255, 0) FILLED,
                                       Circle (x2, y2) 10 (0, 255, 0) FILLED,
                                       Line (x1, y1) (x2, y2) (255, 0, 255) 3,
                                       Circle (cx, cy) 10 (255, 0, 0) FILLED]
                                      img
                               else img);
                       length = hypot (x2 - x1) (y2 - y1)
                   in Inr (length, img', [x1, y1, x2, y2, cx, cy])))))"

section \<open>Auxiliary definitions and example inputs\<close>


text \<open>An image 100 pixels wide and 200 pixels high with three channels, nothing drawn.\<close>

definition example_image :: image where
  "example_image = \<lparr>shape = [200, 100, 3], drawn = []\<rparr>"

text \<open>A hand of 21 landmarks, landmark 0 at the normalised position \<open>(0.5, 0.5)\<close>.\<close>

definition example_hand :: hand where
  "example_hand =
     \<lparr>lm_x = 1 / 2, lm_y = 1 / 2\<rparr> #
     map (\<lambda>i. \<lparr>lm_x = of_nat i / 32, lm_y = of_nat (32 - i) / 32\<rparr>) [1..<21]"

text \<open>
  The pixel entries of \<open>example_hand\<close> in \<open>example_image\<close>.
\<close>

definition example_entries :: "lm_entry list" where
  "example_entries =
     [(0, 50, 100), (1, 3, 193), (2, 6, 187), (3, 9, 181), (4, 12, 175),
      (5, 15, 168), (6, 18, 162), (7, 21, 156), (8, 25, 150),
      (9, 28, 143), (10, 31, 137), (11, 34, 131), (12, 37, 125),
      (13, 40, 118), (14, 43, 112), (15, 46, 106), (16, 50, 100),
      (17, 53, 93), (18, 56, 87), (19, 59, 81), (20, 62, 75)]"



text \<open>
  A fresh detector after one \<open>findHands\<close> call in which the engine reported \<open>hands\<close>.
\<close>

definition detected :: "hand list \<Rightarrow> detector" where
  "detected hands =
     fst (findHands (\<lambda>_. \<lparr>multi_hand_landmarks = Some hands\<rparr>)
            (HandDetector False 2 (1 / 2) (1 / 2)) example_image False)"

text \<open>
  A cached landmark list of 21 entries: landmark 0 at \<open>(0, 0)\<close>, landmark 1 at
  \<open>(3, 4)\<close>, thumb, index and ring finger extended.
\<close>

definition scenario_lmList :: "lm_entry list" where
  "scenario_lmList =
     [(0, 0, 0), (1, 3, 4), (2, 10, 90), (3, 20, 80), (4, 30, 70),
      (5, 40, 120), (6, 40, 100), (7, 40, 70), (8, 40, 50),
      (9, 50, 120), (10, 50, 100), (11, 50, 130), (12, 50, 150),
      (13, 60, 120), (14, 60, 100), (15, 60, 80), (16, 60, 60),
      (17, 70, 120), (18, 70, 100), (19, 70, 100), (20, 70, 100)]"

definition cached :: "lm_entry list \<Rightarrow> detector" where
  "cached lml = (HandDetector False 2 (1 / 2) (1 / 2))\<lparr>lmList := lml\<rparr>"

section \<open>Auxiliary facts\<close>


lemma py_index_nonneg:
  "0 \<le> i \<Longrightarrow> i < int (length xs) \<Longrightarrow> py_index xs i = Inr (xs ! nat i)"
  by (simp add: py_index_def)

lemma py_index_21:
  "length xs = 21 \<Longrightarrow> 0 \<le> i \<Longrightarrow> i \<le> 20 \<Longrightarrow> py_index xs i = Inr (xs ! nat i)"
  by (simp add: py_index_def)

lemma fold_min_le: "fold min xs (a::int) \<le> a"
proof (induction xs arbitrary: a)
  case Nil
  then show ?case by simp
next
  case (Cons y ys)
  have "fold min ys (min y a) \<le> min y a" by (rule Cons.IH)
  then show ?case by simp
qed

lemma fold_min_le_mem: "x \<in> set xs \<Longrightarrow> fold min xs (a::int) \<le> x"
proof (induction xs arbitrary: a)
  case Nil
  then show ?case by simp
next
  case (Cons y ys)
  show ?case
  proof (cases "x = y")
    case True
    have "fold min ys (min y a) \<le> min y a" by (rule fold_min_le)
    then show ?thesis using True by simp
  next
    case False
    then show ?thesis using Cons by simp
  qed
qed

lemma fold_max_ge: "a \<le> fold max xs (a::int)"
proof (induction xs arbitrary: a)
  case Nil
  then show ?case by simp
next
  case (Cons y ys)
  have "max y a \<le> fold max ys (max y a)" by (rule Cons.IH)
  then show ?case by simp
qed

lemma fold_max_ge_mem: "x \<in> set xs \<Longrightarrow> x \<le> fold max xs (a::int)"
proof (induction xs arbitrary: a)
  case Nil
  then show ?case by simp
next
  case (Cons y ys)
  show ?case
  proof (cases "x = y")
    case True
    have "max y a \<le> fold max ys (max y a)" by (rule fold_max_ge)
    then show ?thesis using True by simp
  next
    case False
    then show ?thesis using Cons by simp
  qed
qed

lemma py_min_lower: "py_min xs = Inr m \<Longrightarrow> x \<in> set xs \<Longrightarrow> m \<le> x"
  by (cases xs) (auto simp: fold_min_le fold_min_le_mem)

lemma py_max_upper: "py_max xs = Inr m \<Longrightarrow> x \<in> set xs \<Longrightarrow> x \<le> m"
  by (cases xs) (auto simp: fold_max_ge fold_max_ge_mem)




text \<open>Whatever the loop does, \<open>xList\<close> and \<open>yList\<close> hold the coordinates of the entries.\<close>

lemma findPosition_loop_inv:
  "findPosition_loop draw es st = (r, st') \<Longrightarrow>
   xList st = map entry_x (lms st) \<Longrightarrow> yList st = map entry_y (lms st) \<Longrightarrow>
   xList st' = map entry_x (lms st') \<and> yList st' = map entry_y (lms st')"
proof (induction draw es st rule: findPosition_loop.induct)
  case (1 draw st)
  then show ?case by simp
next
  case (2 draw i lm rest st)
  show ?case
  proof (cases "\<exists>h w c. shape (limg st) = [h, w, c]")
    case True
    then obtain h w c where sh: "shape (limg st) = [h, w, c]" by blast
    show ?thesis
      using "2.prems" "2.IH" [OF sh refl refl]
      by (simp add: sh Let_def entry_x_def entry_y_def)
  next
    case False
    then have "findPosition_loop draw ((i, lm) # rest) st = (Some ValueError, st)"
      by (auto split: list.splits)
    then show ?thesis using "2.prems" by simp
  qed
qed

text \<open>The only exception the loop of \<open>findPosition\<close> raises is \<open>ValueError\<close>.\<close>

lemma findPosition_loop_error:
  "findPosition_loop draw es st = (Some e, st') \<Longrightarrow> e = ValueError"
proof (induction draw es st rule: findPosition_loop.induct)
  case (1 draw st)
  then show ?case by simp
next
  case (2 draw i lm rest st)
  show ?case
  proof (cases "\<exists>h w c. shape (limg st) = [h, w, c]")
    case True
    then obtain h w c where sh: "shape (limg st) = [h, w, c]" by blast
    show ?thesis
      using "2.prems" "2.IH" [OF sh refl refl]
      by (simp add: sh Let_def)
  next
    case False
    then have "findPosition_loop draw ((i, lm) # rest) st = (Some ValueError, st)"
      by (auto split: list.splits)
    then show ?thesis using "2.prems" by simp
  qed
qed

lemma py_index_error: "py_index xs i = Inl e \<Longrightarrow> e = IndexError"
  by (auto simp: py_index_def split: if_splits)

text \<open>With a stored result, \<open>findPosition\<close> never raises \<open>AttributeError\<close>.\<close>

lemma findPosition_no_AttributeError:
  assumes res: "results self = Some res"
  shows "snd (findPosition self img handNo draw) \<noteq> Inl AttributeError"
proof (cases "multi_hand_landmarks res")
  case None
  with res show ?thesis by (simp add: findPosition_def Let_def)
next
  case (Some hands)
  show ?thesis
  proof (cases "hands \<noteq> [] \<and> handNo < int (length hands)")
    case False
    with res Some show ?thesis by (auto simp: findPosition_def Let_def)
  next
    case True
    show ?thesis
    proof (cases "py_index hands handNo")
      case (Inl e)
      then have "e = IndexError" by (rule py_index_error)
      with res Some True Inl show ?thesis by (simp add: findPosition_def Let_def)
    next
      case (Inr myHand)
      obtain r st where loop: "findPosition_loop draw (enumerate 0 myHand)
          \<lparr>xList = [], yList = [], lms = [], limg = img\<rparr> = (r, st)"
        by (cases "findPosition_loop draw (enumerate 0 myHand)
          \<lparr>xList = [], yList = [], lms = [], limg = img\<rparr>")
      show ?thesis
      proof (cases r)
        case (Some e)
        with loop have "e = ValueError" by (simp add: findPosition_loop_error)
        with res \<open>multi_hand_landmarks res = Some hands\<close> True Inr loop Some
        show ?thesis by (simp add: findPosition_def Let_def)
      next
        case None
        with res \<open>multi_hand_landmarks res = Some hands\<close> True Inr loop
        show ?thesis
          by (simp add: findPosition_def Let_def split: sum.splits)
      qed
    qed
  qed
qed


lemma findPosition_bbox:
  assumes "snd (findPosition self img handNo draw) = Inr (lml, bbox)"
  shows "lml = [] \<and> bbox = [] \<or>
         (\<exists>xmin ymin xmax ymax. bbox = [xmin, ymin, xmax, ymax] \<and>
           py_min (map entry_x lml) = Inr xmin \<and> py_max (map entry_x lml) = Inr xmax \<and>
           py_min (map entry_y lml) = Inr ymin \<and> py_max (map entry_y lml) = Inr ymax)"
proof (cases "lml = [] \<and> bbox = []")
  case True
  then show ?thesis by simp
next
  case False
  with assms obtain myHand st xmin xmax ymin ymax where
    loop: "findPosition_loop draw (enumerate 0 myHand)
             \<lparr>xList = [], yList = [], lms = [], limg = img\<rparr> = (None, st)"
    and mm: "py_min (xList st) = Inr xmin" "py_max (xList st) = Inr xmax"
            "py_min (yList st) = Inr ymin" "py_max (yList st) = Inr ymax"
    and out: "lml = lms st" "bbox = [xmin, ymin, xmax, ymax]"
    unfolding findPosition_def
    by (auto simp: Let_def split: option.splits if_splits sum.splits prod.splits)
  from findPosition_loop_inv [OF loop] have
    "xList st = map entry_x (lms st)" "yList st = map entry_y (lms st)" by simp_all
  with mm out show ?thesis by simp
qed

lemma fingersUp_21:
  assumes "length (lmList self) = 21"
  shows "fingersUp self = Inr
     [if entry_x (lmList self ! 4) > entry_x (lmList self ! 3) then 1 else 0,
      if entry_y (lmList self ! 8) < entry_y (lmList self ! 6) then 1 else 0,
      if entry_y (lmList self ! 12) < entry_y (lmList self ! 10) then 1 else 0,
      if entry_y (lmList self ! 16) < entry_y (lmList self ! 14) then 1 else 0,
      if entry_y (lmList self ! 20) < entry_y (lmList self ! 18) then 1 else 0]"
proof -
  have ne: "lmList self \<noteq> []" using assms by auto
  note ix = py_index_21 [OF assms]
  have t: "tipIds ! 0 = 4" "tipIds ! Suc 0 = 8" "tipIds ! 2 = 12" "tipIds ! 3 = 16"
    "tipIds ! 4 = 20"
    by (simp_all add: tipIds_def)
  show ?thesis
    unfolding fingersUp_def
    by (simp add: ne t ix split del: if_split)
qed

lemma hypot_symmetric: "hypot (a - b) (c - d) = hypot (b - a) (d - c)"
proof -
  have "(a - b) * (a - b) + (c - d) * (c - d) = (b - a) * (b - a) + (d - c) * (d - c)"
    by (simp add: algebra_simps)
  then show ?thesis by (simp only: hypot_def)
qed

lemma hypot_euclid: "hypot a b = sqrt ((real_of_int a)\<^sup>2 + (real_of_int b)\<^sup>2)"
  by (simp add: hypot_def power2_eq_square)

lemma hypot_3_4: "hypot 3 4 = 5"
proof -
  have "sqrt 25 = (5::real)" by (rule real_sqrt_unique) simp_all
  then show ?thesis by (simp add: hypot_def)
qed

lemma findDistance_valid:
  assumes "0 \<le> p1" "p1 < int (length (lmList self))"
    and "0 \<le> p2" "p2 < int (length (lmList self))"
  shows "findDistance self p1 p2 img draw =
     Inr (hypot (entry_x (lmList self ! nat p2) - entry_x (lmList self ! nat p1))
                (entry_y (lmList self ! nat p2) - entry_y (lmList self ! nat p1)),
          (if draw then img\<lparr>drawn := drawn img @
            [Circle (entry_x (lmList self ! nat p1), entry_y (lmList self ! nat p1))
                10 (0, 255, 0) FILLED,
             Circle (entry_x (lmList self ! nat p2), entry_y (lmList self ! nat p2))
                10 (0, 255, 0) FILLED,
             Line (entry_x (lmList self ! nat p1), entry_y (lmList self ! nat p1))
                  (entry_x (lmList self ! nat p2), entry_y (lmList self ! nat p2))
                  (255, 0, 255) 3,
             Circle ((entry_x (lmList self ! nat p1) + entry_x (lmList self ! nat p2)) div 2,
                     (entry_y (lmList self ! nat p1) + entry_y (lmList self ! nat p2)) div 2)
                10 (255, 0, 0) FILLED]\<rparr>
           else img),
          [entry_x (lmList self ! nat p1), entry_y (lmList self ! nat p1),
           entry_x (lmList self ! nat p2), entry_y (lmList self ! nat p2),
           (entry_x (lmList self ! nat p1) + entry_x (lmList self ! nat p2)) div 2,
           (entry_y (lmList self ! nat p1) + entry_y (lmList self ! nat p2)) div 2])"
proof -
  have ne: "lmList self \<noteq> []" using assms by auto
  show ?thesis
    unfolding findDistance_def
    by (simp add: ne py_index_nonneg assms Let_def draw_on_def)
qed

section \<open>The claims\<close>

subsection \<open>C1: conversion to pixel coordinates\<close>




subsection \<open>C2: nothing found\<close>

text \<open>
  C2 as written covers every requested hand index. The guard of the code is
  \<open>handNo < len(...)\<close> only: with one detected hand the index \<open>-2\<close> passes the guard
  and the indexing raises \<open>IndexError\<close>.
\<close>

theorem findPosition_negative_index_counterexample:
  "snd (findPosition (detected [example_hand]) example_image (- 2) False) = Inl IndexError"
  by code_simp

text \<open>
  C2, amended: for every DetectionResult, if no hands were detected (whatever the index),
  or the requested hand index is at least the number of detected hands, \<open>findPosition\<close>
  raises no error, returns an empty LandmarkList and an empty BoundingBox, leaves the
  image as it is and caches the empty list.
\<close>

theorem findPosition_nothing_found:
  assumes "results self = Some res"
    and "\<forall>hands. multi_hand_landmarks res = Some hands
           \<longrightarrow> hands = [] \<or> int (length hands) \<le> handNo"
  shows "findPosition self img handNo draw = ((self\<lparr>lmList := []\<rparr>, img), Inr ([], []))"
  using assms unfolding findPosition_def
  by (auto simp: Let_def split: option.splits)

theorem findPosition_nothing_found_witness:
  "findPosition (detected [example_hand]) example_image 1 True
     = ((detected [example_hand]\<lparr>lmList := []\<rparr>, example_image), Inr ([], []))
   \<and> findPosition (detected []) example_image (- 3) True
     = ((detected []\<lparr>lmList := []\<rparr>, example_image), Inr ([], []))"
proof -
  have r: "results (detected hs) = Some \<lparr>multi_hand_landmarks = Some hs\<rparr>" for hs
    by (simp add: detected_def findHands_def Let_def)
  have a: "\<forall>hands. multi_hand_landmarks \<lparr>multi_hand_landmarks = Some [example_hand]\<rparr> = Some hands
             \<longrightarrow> hands = [] \<or> int (length hands) \<le> 1"
    by auto
  have b: "\<forall>hands. multi_hand_landmarks \<lparr>multi_hand_landmarks = Some ([]::hand list)\<rparr> = Some hands
             \<longrightarrow> hands = [] \<or> int (length hands) \<le> - 3"
    by auto
  show ?thesis
    using findPosition_nothing_found [OF r a, of example_image True]
      findPosition_nothing_found [OF r b, of example_image True]
    by simp
qed

subsection \<open>C3: the flags of \<open>fingersUp\<close>\<close>

text \<open>
  C3: for every cached LandmarkList with its 21 entries, \<open>fingersUp\<close> returns the thumb
  flag, 1 exactly when the x-pixel of landmark 4 exceeds that of landmark 3, followed by
  the flags of the fingers with tips 8, 12, 16, 20, each 1 exactly when the y-pixel of the
  tip is strictly smaller than that of the landmark two positions below it
  (6, 10, 14, 18), else 0.
\<close>

theorem fingersUp_flags:
  assumes "length (lmList self) = 21"
    and "thumb = (if entry_x (lmList self ! 4) > entry_x (lmList self ! 3) then 1 else 0)"
    and "\<forall>k \<in> {1, 2, 3, 4}. finger k =
           (if entry_y (lmList self ! nat (tipIds ! k))
                 < entry_y (lmList self ! nat (tipIds ! k - 2)) then 1 else 0)"
  shows "fingersUp self = Inr [thumb, finger 1, finger 2, finger 3, finger 4]
         \<and> map (\<lambda>k. tipIds ! k) [1, 2, 3, 4] = [8, 12, 16, 20]
         \<and> map (\<lambda>k. tipIds ! k - 2) [1, 2, 3, 4] = [6, 10, 14, 18]"
proof -
  have t: "tipIds ! Suc 0 = 8" "tipIds ! 2 = 12" "tipIds ! 3 = 16" "tipIds ! 4 = 20"
    by (simp_all add: tipIds_def)
  have "finger 1 = (if entry_y (lmList self ! 8) < entry_y (lmList self ! 6) then 1 else 0)"
    "finger 2 = (if entry_y (lmList self ! 12) < entry_y (lmList self ! 10) then 1 else 0)"
    "finger 3 = (if entry_y (lmList self ! 16) < entry_y (lmList self ! 14) then 1 else 0)"
    "finger 4 = (if entry_y (lmList self ! 20) < entry_y (lmList self ! 18) then 1 else 0)"
    using assms(3) by (simp_all add: t)
  then show ?thesis
    using fingersUp_21 [OF assms(1)] assms(2) by (simp add: tipIds_def)
qed

theorem fingersUp_flags_witness:
  "fingersUp (cached scenario_lmList) = Inr [1, 1, 0, 1, 0]"
proof -
  have l: "length (lmList (cached scenario_lmList)) = 21"
    by (simp add: cached_def scenario_lmList_def)
  have th: "(1::int) = (if entry_x (lmList (cached scenario_lmList) ! 4)
                 > entry_x (lmList (cached scenario_lmList) ! 3) then 1 else 0)"
    by (simp add: cached_def scenario_lmList_def entry_x_def)
  have fi: "\<forall>k \<in> {1, 2, 3, 4}. ([0, 1, 0, 1, 0] ! k :: int) =
           (if entry_y (lmList (cached scenario_lmList) ! nat (tipIds ! k))
                 < entry_y (lmList (cached scenario_lmList) ! nat (tipIds ! k - 2))
            then 1 else 0)"
    by (simp add: cached_def scenario_lmList_def entry_y_def tipIds_def)
  show ?thesis
    using fingersUp_flags [OF l th fi] by simp
qed

subsection \<open>C4: five flags or none\<close>

text \<open>
  C4: with a cached LandmarkList (its 21 entries) \<open>fingersUp\<close> returns exactly 5 flags,
  each 0 or 1, the first for the thumb and the next four for index, middle, ring and
  pinky in that order; with no LandmarkList cached it returns the empty sequence, and no
  error in either case.
\<close>

theorem fingersUp_five_flags:
  "(length (lmList self) = 21 \<longrightarrow>
      (\<exists>r. fingersUp self = Inr r \<and> length r = 5 \<and> set r \<subseteq> {0, 1}
         \<and> (r ! 0 = 1 \<longleftrightarrow> entry_x (lmList self ! 4) > entry_x (lmList self ! 3))
         \<and> (r ! 1 = 1 \<longleftrightarrow> entry_y (lmList self ! 8) < entry_y (lmList self ! 6))
         \<and> (r ! 2 = 1 \<longleftrightarrow> entry_y (lmList self ! 12) < entry_y (lmList self ! 10))
         \<and> (r ! 3 = 1 \<longleftrightarrow> entry_y (lmList self ! 16) < entry_y (lmList self ! 14))
         \<and> (r ! 4 = 1 \<longleftrightarrow> entry_y (lmList self ! 20) < entry_y (lmList self ! 18))))
   \<and> fingersUp (self\<lparr>lmList := []\<rparr>) = Inr []"
proof (intro conjI impI)
  assume "length (lmList self) = 21"
  from fingersUp_21 [OF this] show "\<exists>r. fingersUp self = Inr r \<and> length r = 5 \<and> set r \<subseteq> {0, 1}
         \<and> (r ! 0 = 1 \<longleftrightarrow> entry_x (lmList self ! 4) > entry_x (lmList self ! 3))
         \<and> (r ! 1 = 1 \<longleftrightarrow> entry_y (lmList self ! 8) < entry_y (lmList self ! 6))
         \<and> (r ! 2 = 1 \<longleftrightarrow> entry_y (lmList self ! 12) < entry_y (lmList self ! 10))
         \<and> (r ! 3 = 1 \<longleftrightarrow> entry_y (lmList self ! 16) < entry_y (lmList self ! 14))
         \<and> (r ! 4 = 1 \<longleftrightarrow> entry_y (lmList self ! 20) < entry_y (lmList self ! 18))"
    by simp
next
  show "fingersUp (self\<lparr>lmList := []\<rparr>) = Inr []"
    by (simp add: fingersUp_def)
qed

theorem fingersUp_five_flags_witness:
  "(\<exists>r. fingersUp (cached scenario_lmList) = Inr r \<and> length r = 5 \<and> set r \<subseteq> {0, 1})
   \<and> fingersUp (cached []) = Inr []"
proof -
  have l: "length (lmList (cached scenario_lmList)) = 21"
    by (simp add: cached_def scenario_lmList_def)
  have e: "cached [] = (cached scenario_lmList)\<lparr>lmList := []\<rparr>"
    by (simp add: cached_def)
  show ?thesis
    using fingersUp_five_flags [of "cached scenario_lmList"] l unfolding e by blast
qed

subsection \<open>C5: the result of \<open>findDistance\<close>\<close>

text \<open>
  C5: with a cached LandmarkList in which landmark \<open>p1\<close> is at \<open>(x1, y1)\<close> and landmark
  \<open>p2\<close> at \<open>(x2, y2)\<close>, \<open>findDistance\<close> returns the Euclidean distance between the two
  points, the image (with the two points, their connection and the midpoint drawn on it
  when asked), and the list \<open>[x1, y1, x2, y2, midX, midY]\<close> with the midpoint computed by
  integer division; with no LandmarkList cached it returns \<open>(0, image, [])\<close> with the
  image unchanged.
\<close>

theorem findDistance_euclidean:
  assumes "0 \<le> p1" and "p1 < int (length (lmList self))"
    and "0 \<le> p2" and "p2 < int (length (lmList self))"
    and "lmList self ! nat p1 = (i1, x1, y1)"
    and "lmList self ! nat p2 = (i2, x2, y2)"
  shows "findDistance self p1 p2 img draw =
           Inr (sqrt ((real_of_int (x2 - x1))\<^sup>2 + (real_of_int (y2 - y1))\<^sup>2),
                (if draw
                 then img\<lparr>drawn := drawn img @
                        [Circle (x1, y1) 10 (0, 255, 0) FILLED,
                         Circle (x2, y2) 10 (0, 255, 0) FILLED,
                         Line (x1, y1) (x2, y2) (255, 0, 255) 3,
                         Circle ((x1 + x2) div 2, (y1 + y2) div 2) 10 (255, 0, 0) FILLED]\<rparr>
                 else img),
                [x1, y1, x2, y2, (x1 + x2) div 2, (y1 + y2) div 2])
         \<and> findDistance (self\<lparr>lmList := []\<rparr>) q1 q2 img draw = Inr (0, img, [])"
proof
  show "findDistance (self\<lparr>lmList := []\<rparr>) q1 q2 img draw = Inr (0, img, [])"
    by (simp add: findDistance_def)
next
  have e: "entry_x (lmList self ! nat p1) = x1" "entry_y (lmList self ! nat p1) = y1"
    "entry_x (lmList self ! nat p2) = x2" "entry_y (lmList self ! nat p2) = y2"
    using assms(5,6) by (simp_all add: entry_x_def entry_y_def)
  show "findDistance self p1 p2 img draw =
           Inr (sqrt ((real_of_int (x2 - x1))\<^sup>2 + (real_of_int (y2 - y1))\<^sup>2),
                (if draw
                 then img\<lparr>drawn := drawn img @
                        [Circle (x1, y1) 10 (0, 255, 0) FILLED,
                         Circle (x2, y2) 10 (0, 255, 0) FILLED,
                         Line (x1, y1) (x2, y2) (255, 0, 255) 3,
                         Circle ((x1 + x2) div 2, (y1 + y2) div 2) 10 (255, 0, 0) FILLED]\<rparr>
                 else img),
                [x1, y1, x2, y2, (x1 + x2) div 2, (y1 + y2) div 2])"
    unfolding findDistance_valid [OF assms(1-4)] e hypot_euclid by (rule refl)
qed

theorem findDistance_euclidean_witness:
  "findDistance (cached scenario_lmList) 0 1 example_image False
     = Inr (5, example_image, [0, 0, 3, 4, 1, 2])
   \<and> findDistance (cached []) 0 1 example_image False = Inr (0, example_image, [])"
proof -
  have l: "(0::int) \<le> 0" "0 < int (length (lmList (cached scenario_lmList)))"
    "(0::int) \<le> 1" "1 < int (length (lmList (cached scenario_lmList)))"
    by (simp_all add: cached_def scenario_lmList_def)
  have a: "lmList (cached scenario_lmList) ! nat 0 = (0, 0, 0)"
    and b: "lmList (cached scenario_lmList) ! nat 1 = (1, 3, 4)"
    by (simp_all add: cached_def scenario_lmList_def)
  have e: "cached [] = (cached scenario_lmList)\<lparr>lmList := []\<rparr>"
    by (simp add: cached_def)
  have s: "sqrt 25 = (5::real)"
    by (rule real_sqrt_unique) simp_all
  show ?thesis
    using findDistance_euclidean [OF l a b, of example_image False 0 1]
    unfolding e by (simp add: s)
qed

subsection \<open>C6: landmark indices out of range\<close>

text \<open>
  C6 as written covers every index outside \<open>[0, 20]\<close>. The code indexes the list
  directly, so the indices \<open>-21\<close> to \<open>-1\<close> count from the end and a result is returned
  silently: \<open>-21\<close> and \<open>-20\<close> address landmarks 0 and 1.
\<close>

theorem findDistance_negative_index_counterexample:
  "findDistance (cached scenario_lmList) (- 21) (- 20) example_image False
     = Inr (5, example_image, [0, 0, 3, 4, 1, 2])"
proof -
  have s: "sqrt 25 = (5::real)"
    by (rule real_sqrt_unique) simp_all
  show ?thesis
    by (simp add: findDistance_def cached_def scenario_lmList_def py_index_def
        entry_x_def entry_y_def hypot_def Let_def s)
qed

text \<open>
  C6, amended: for every non-empty cached LandmarkList of \<open>n\<close> entries (21 for a hand)
  and every landmark index that is at least \<open>n\<close> or below \<open>-n\<close>, passed as \<open>p1\<close> or
  \<open>p2\<close>, \<open>findDistance\<close> raises \<open>IndexError\<close> and returns nothing; this differs from
  the value \<open>(0, image, [])\<close> it returns when nothing is cached.
\<close>

theorem findDistance_index_error:
  assumes "lmList self \<noteq> []"
    and "int (length (lmList self)) \<le> p1 \<or> p1 < - int (length (lmList self))
       \<or> int (length (lmList self)) \<le> p2 \<or> p2 < - int (length (lmList self))"
  shows "findDistance self p1 p2 img draw = Inl IndexError
         \<and> findDistance self p1 p2 img draw
             \<noteq> findDistance (self\<lparr>lmList := []\<rparr>) p1 p2 img draw"
proof -
  have "findDistance self p1 p2 img draw = Inl IndexError"
    using assms unfolding findDistance_def py_index_def
    by (auto simp: Let_def split: sum.splits)
  moreover have "findDistance (self\<lparr>lmList := []\<rparr>) p1 p2 img draw = Inr (0, img, [])"
    by (simp add: findDistance_def)
  ultimately show ?thesis by simp
qed

theorem findDistance_index_error_witness:
  "findDistance (cached scenario_lmList) 21 0 example_image True = Inl IndexError
   \<and> findDistance (cached scenario_lmList) 0 (- 22) example_image True = Inl IndexError"
proof -
  have n: "lmList (cached scenario_lmList) \<noteq> []"
    and l: "int (length (lmList (cached scenario_lmList))) = 21"
    by (simp_all add: cached_def scenario_lmList_def)
  show ?thesis
    using findDistance_index_error [OF n, of 21 0 example_image True]
      findDistance_index_error [OF n, of 0 "- 22" example_image True]
    by (simp add: l)
qed

subsection \<open>C7: the bounding box\<close>

text \<open>
  C7: whenever \<open>findPosition\<close> returns a non-empty LandmarkList, the returned
  BoundingBox is \<open>[xmin, ymin, xmax, ymax]\<close> with \<open>xmin \<le> x \<le> xmax\<close> and
  \<open>ymin \<le> y \<le> ymax\<close> for the pixel coordinates \<open>(x, y)\<close> of every landmark in the list.
\<close>

theorem findPosition_bounding_box:
  assumes "snd (findPosition self img handNo draw) = Inr (lml, bbox)"
    and "lml \<noteq> []"
    and "(i, x, y) \<in> set lml"
  shows "\<exists>xmin ymin xmax ymax. bbox = [xmin, ymin, xmax, ymax]
           \<and> xmin \<le> x \<and> x \<le> xmax \<and> ymin \<le> y \<and> y \<le> ymax"
proof -
  from findPosition_bbox [OF assms(1)] assms(2) obtain xmin ymin xmax ymax where
    b: "bbox = [xmin, ymin, xmax, ymax]"
    and m: "py_min (map entry_x lml) = Inr xmin" "py_max (map entry_x lml) = Inr xmax"
      "py_min (map entry_y lml) = Inr ymin" "py_max (map entry_y lml) = Inr ymax"
    by auto
  have x: "x \<in> set (map entry_x lml)"
    using assms(3) by (force simp: entry_x_def)
  have y: "y \<in> set (map entry_y lml)"
    using assms(3) by (force simp: entry_y_def)
  have "xmin \<le> x" "x \<le> xmax" "ymin \<le> y" "y \<le> ymax"
    using py_min_lower [OF m(1) x] py_max_upper [OF m(2) x]
      py_min_lower [OF m(3) y] py_max_upper [OF m(4) y]
    by simp_all
  with b show ?thesis by simp
qed

theorem findPosition_bounding_box_witness:
  "snd (findPosition (detected [example_hand]) example_image 0 False)
     = Inr (example_entries, [3, 75, 62, 193])
   \<and> (\<exists>xmin ymin xmax ymax. [3, 75, 62, 193] = [xmin, ymin, xmax, ymax]
         \<and> xmin \<le> (25::int) \<and> 25 \<le> xmax \<and> ymin \<le> (150::int) \<and> 150 \<le> ymax)"
proof -
  have r: "snd (findPosition (detected [example_hand]) example_image 0 False)
     = Inr (example_entries, [3, 75, 62, 193])"
    by code_simp
  have n: "example_entries \<noteq> []"
    and m: "(8, 25, 150) \<in> set example_entries"
    by (simp_all add: example_entries_def)
  from findPosition_bounding_box [OF r n m] r show ?thesis
    by (intro conjI)
qed

subsection \<open>C8: symmetry of the distance\<close>

text \<open>
  C8: for every cached LandmarkList and every pair of landmark indices, the scalar
  distance returned by \<open>findDistance\<close> for \<open>(p1, p2)\<close> equals the one returned for
  \<open>(p2, p1)\<close>, whatever the images and drawing flags of the two calls; and where one
  call raises, the other raises the same exception.
\<close>

theorem findDistance_symmetric:
  "map_sum id fst (findDistance self p1 p2 img draw)
     = map_sum id fst (findDistance self p2 p1 img' draw')"
  by (cases "py_index (lmList self) p1"; cases "py_index (lmList self) p2")
     (auto simp: findDistance_def Let_def hypot_symmetric py_index_def split: if_splits)

subsection \<open>C9: the cache is replaced wholesale\<close>

text \<open>
  C9: the LandmarkList cached after a call of \<open>findPosition\<close>, the value the call
  returns (or the exception it raises) and the image it leaves depend only on the stored
  DetectionResult, the hand index, the image and the drawing flag: two detectors with the
  same DetectionResult, whatever they had cached before, end with the same cached
  LandmarkList, and so every later \<open>fingersUp\<close> or \<open>findDistance\<close> gives the same
  result on both.
\<close>

theorem findPosition_replaces_cache:
  assumes "results self = results self'"
  shows "lmList (fst (fst (findPosition self img handNo draw)))
           = lmList (fst (fst (findPosition self' img handNo draw)))
         \<and> snd (fst (findPosition self img handNo draw))
           = snd (fst (findPosition self' img handNo draw))
         \<and> snd (findPosition self img handNo draw) = snd (findPosition self' img handNo draw)
         \<and> fingersUp (fst (fst (findPosition self img handNo draw)))
           = fingersUp (fst (fst (findPosition self' img handNo draw)))
         \<and> findDistance (fst (fst (findPosition self img handNo draw))) p1 p2 img2 draw2
           = findDistance (fst (fst (findPosition self' img handNo draw))) p1 p2 img2 draw2"
proof -
  have l: "lmList (fst (fst (findPosition self img handNo draw)))
           = lmList (fst (fst (findPosition self' img handNo draw)))"
    using assms unfolding findPosition_def
    by (simp add: Let_def split: option.splits sum.splits prod.splits)
  have i: "snd (fst (findPosition self img handNo draw))
           = snd (fst (findPosition self' img handNo draw))"
    using assms unfolding findPosition_def
    by (simp add: Let_def split: option.splits sum.splits prod.splits)
  have r: "snd (findPosition self img handNo draw) = snd (findPosition self' img handNo draw)"
    using assms unfolding findPosition_def
    by (simp add: Let_def split: option.splits sum.splits prod.splits)
  show ?thesis
    unfolding fingersUp_def findDistance_def l i r by simp
qed

theorem findPosition_replaces_cache_witness:
  "lmList (fst (fst (findPosition ((detected [example_hand])\<lparr>lmList := scenario_lmList\<rparr>)
                       example_image 0 False)))
     = example_entries
   \<and> lmList (fst (fst (findPosition ((detected [])\<lparr>lmList := scenario_lmList\<rparr>)
                         example_image 0 False)))
     = []"
proof -
  have a: "results ((detected hs)\<lparr>lmList := scenario_lmList\<rparr>) = results (detected hs)" for hs
    by simp
  have b: "lmList (fst (fst (findPosition (detected [example_hand]) example_image 0 False)))
             = example_entries"
    by code_simp
  have c: "lmList (fst (fst (findPosition (detected []) example_image 0 False))) = []"
    by code_simp
  show ?thesis
    using findPosition_replaces_cache [OF a, of "[example_hand]" example_image 0 False]
      findPosition_replaces_cache [OF a, of "[]" example_image 0 False] b c
    by simp
qed

subsection \<open>C10: \<open>findPosition\<close> before any \<open>findHands\<close>\<close>

text \<open>
  C10: on a freshly constructed detector \<open>findPosition\<close> raises (the stored result is
  \<open>None\<close> and its attribute is read unconditionally) instead of returning the empty
  LandmarkList and BoundingBox. Once \<open>findHands\<close> has run, that exception cannot occur
  any more, and when the engine reported no hands the empty pair is returned.
\<close>

theorem findPosition_before_findHands:
  "snd (findPosition (HandDetector m mh dc tc) img handNo draw) = Inl AttributeError
   \<and> snd (findPosition (fst (findHands process (HandDetector m mh dc tc) img0 draw0))
            img handNo draw) \<noteq> Inl AttributeError
   \<and> snd (findPosition
            (fst (findHands (\<lambda>_. \<lparr>multi_hand_landmarks = None\<rparr>)
                    (HandDetector m mh dc tc) img0 draw0))
            img handNo draw) = Inr ([], [])"
proof (intro conjI)
  show "snd (findPosition (HandDetector m mh dc tc) img handNo draw) = Inl AttributeError"
    by (simp add: findPosition_def HandDetector_def)
next
  have r: "results (fst (findHands process (HandDetector m mh dc tc) img0 draw0))
             = Some (process img0)"
    by (simp add: findHands_def Let_def split: option.splits)
  show "snd (findPosition (fst (findHands process (HandDetector m mh dc tc) img0 draw0))
            img handNo draw) \<noteq> Inl AttributeError"
    by (rule findPosition_no_AttributeError [OF r])
next
  show "snd (findPosition
            (fst (findHands (\<lambda>_. \<lparr>multi_hand_landmarks = None\<rparr>)
                    (HandDetector m mh dc tc) img0 draw0))
            img handNo draw) = Inr ([], [])"
    by (simp add: findPosition_def findHands_def Let_def)
qed

end
